theory Spec2Isabelle
  imports Main
begin

section \<open>Data model of \<open>main.py\<close>\<close>

text \<open>
  A parsed row is a Python dict from column name to cell value. The cell values are
  modelled by the Python types whose \<open>str()\<close> is a function on exact data: strings,
  integers, booleans and \<open>None\<close>. Floating-point cells are left out.
\<close>

datatype pyval = PStr string | PInt int | PBool bool | PNone

type_synonym test_case = "string \<rightharpoonup> pyval"

text \<open>Decimal rendering of a number, as \<open>str(n)\<close> and the f-string \<open>{i+1}\<close> produce it.\<close>

definition digit_char :: "nat \<Rightarrow> char" where
  "digit_char d = ''0123456789'' ! (d mod 10)"

fun str_nat :: "nat \<Rightarrow> string" where
  "str_nat n = (if n < 10 then [digit_char n] else str_nat (n div 10) @ [digit_char n])"

definition str_int :: "int \<Rightarrow> string" where
  "str_int i = (if i < 0 then CHR ''-'' # str_nat (nat (- i)) else str_nat (nat i))"

fun py_str :: "pyval \<Rightarrow> string" where
  "py_str (PStr s) = s"
| "py_str (PInt i) = str_int i"
| "py_str (PBool b) = (if b then ''True'' else ''False'')"
| "py_str PNone = ''None''"

text \<open>The dicts built at lines 52-55 and 68-78, with the keys the source gives them.\<close>

record attempt =
  attempt :: nat
  script :: string
  outcome :: string
  error :: "string option"

record test_report =
  test_case_id :: string
  status :: string
  retries :: nat
  history :: "attempt list"

record run_report =
  run_id :: string
  test_cases :: "test_report list"

text \<open>The uploaded file: its client-side name and its bytes.\<close>

record upload =
  filename :: string
  file_bytes :: string

text \<open>
  What a handler returns: a rendering of \<open>index.html\<close> (with an optional error text),
  a rendering of \<open>report.html\<close> for a report, or a redirect with its status code.
\<close>

datatype response =
    IndexPage "string option"
  | ReportPage run_report
  | RedirectResponse string nat

section \<open>External collaborators and the process state\<close>

text \<open>
  The calls that leave \<open>main.py\<close> are parameters. Each one reads and changes an
  external world \<open>'w\<close> (file system, model service, subprocesses, random source), so
  that two calls with the same arguments may answer differently. An exception of
  \<open>parse_test_file\<close> is the value \<open>Inl\<close> of its message, since line 46 catches it; the
  other collaborators are taken to return. \<open>generate_initial_script\<close> may return
  \<open>None\<close>, which line 67 tests together with the empty text.
\<close>

record 'w services =
  write_file :: "string \<Rightarrow> string \<Rightarrow> 'w \<Rightarrow> 'w"
  parse_test_file :: "string \<Rightarrow> 'w \<Rightarrow> (string + test_case list) \<times> 'w"
  uuid4 :: "'w \<Rightarrow> string \<times> 'w"
  generate_initial_script :: "test_case \<Rightarrow> 'w \<Rightarrow> string option \<times> 'w"
  execute_test_case :: "string \<Rightarrow> string \<Rightarrow> string \<Rightarrow> 'w \<Rightarrow> test_report \<times> 'w"

text \<open>
  The effects of a handler, in the order they happen. Console output is not recorded.
\<close>

datatype event =
    EvWriteFile string
  | EvParse string
  | EvUuid
  | EvGenerate test_case
  | EvExecute string string string
  | EvSleep nat
  | EvStore string

fun is_store :: "event \<Rightarrow> bool" where
  "is_store (EvStore k) = True"
| "is_store e = False"

fun is_execute :: "event \<Rightarrow> bool" where
  "is_execute (EvExecute i s d) = True"
| "is_execute e = False"

fun is_generate :: "event \<Rightarrow> bool" where
  "is_generate (EvGenerate tc) = True"
| "is_generate e = False"

text \<open>
  The state of the process: the world outside, the module-level dict \<open>REPORT_DB\<close>
  (line 28) and the log of effects so far.
\<close>

record 'w state =
  world :: 'w
  REPORT_DB :: "string \<rightharpoonup> run_report"
  trace :: "event list"

definition UPLOADS_DIR :: string where
  "UPLOADS_DIR = ''uploads''"

definition RESULTS_DIR :: string where
  "RESULTS_DIR = ''test_results''"

definition ID_KEY :: string where
  "ID_KEY = ''TestCase Name/ID''"

definition ERROR_MARKER :: string where
  "ERROR_MARKER = ''# Gemini API Error''"

text \<open>\<open>os.path.join\<close> of two components on a POSIX system.\<close>

definition os_path_join :: "string \<Rightarrow> string \<Rightarrow> string" where
  "os_path_join a b =
     (if b \<noteq> [] \<and> hd b = CHR ''/'' then b
      else if a = [] \<or> last a = CHR ''/'' then a @ b
      else a @ ''/'' @ b)"

text \<open>Python's \<open>pat in s\<close> on strings.\<close>

fun substring_in :: "string \<Rightarrow> string \<Rightarrow> bool" where
  "substring_in pat [] = (pat = [])"
| "substring_in pat (c # cs) = (take (length pat) (c # cs) = pat \<or> substring_in pat cs)"

section \<open>The batch run (\<open>handle_test_run\<close>)\<close>

text \<open>Line 58: \<open>str(test_case.get('TestCase Name/ID', f'TestCase_{i+1}'))\<close>.\<close>

definition case_id :: "nat \<Rightarrow> test_case \<Rightarrow> string" where
  "case_id i tc =
     py_str (case tc ID_KEY of None \<Rightarrow> PStr (''TestCase_'' @ str_nat (i + 1)) | Some v \<Rightarrow> v)"

text \<open>Line 67: \<open>not initial_script or "# Gemini API Error" in initial_script\<close>.\<close>

definition generation_failed :: "string option \<Rightarrow> bool" where
  "generation_failed r =
     (case r of None \<Rightarrow> True | Some s \<Rightarrow> s = [] \<or> substring_in ERROR_MARKER s)"

text \<open>Lines 68-78.\<close>

definition failure_report :: "string \<Rightarrow> string option \<Rightarrow> test_report" where
  "failure_report tid initial_script =
     \<lparr>test_case_id = tid, status = ''Fail'', retries = 0,
      history = [\<lparr>attempt = 1, script = ''Failed to generate script from Gemini.'',
                  outcome = ''Fail'', error = initial_script\<rparr>]\<rparr>"

definition log_event :: "event \<Rightarrow> 'w state \<Rightarrow> 'w state" where
  "log_event e s = s\<lparr>trace := trace s @ [e]\<rparr>"

definition call_generate :: "'w services \<Rightarrow> test_case \<Rightarrow> 'w state \<Rightarrow> string option \<times> 'w state" where
  "call_generate sv tc s =
     (let (r, w) = generate_initial_script sv tc (world s)
      in (r, log_event (EvGenerate tc) (s\<lparr>world := w\<rparr>)))"

definition call_execute ::
  "'w services \<Rightarrow> string \<Rightarrow> string \<Rightarrow> string \<Rightarrow> 'w state \<Rightarrow> test_report \<times> 'w state" where
  "call_execute sv tid scr dir s =
     (let (r, w) = execute_test_case sv tid scr dir (world s)
      in (r, log_event (EvExecute tid scr dir) (s\<lparr>world := w\<rparr>)))"

text \<open>
  One pass through the loop body, lines 58-85. \<open>None\<close> is the \<open>continue\<close> of line 61;
  otherwise the report that line 82 appends.
\<close>

definition process_test_case ::
  "'w services \<Rightarrow> nat \<Rightarrow> test_case \<Rightarrow> 'w state \<Rightarrow> test_report option \<times> 'w state" where
  "process_test_case sv i tc s =
     (let tid = case_id i tc in
      if tid = [] then (None, s)
      else
        let (initial_script, s1) = call_generate sv tc s;
            (test_report, s2) =
              (case initial_script of
                 None \<Rightarrow> (failure_report tid initial_script, s1)
               | Some scr \<Rightarrow>
                   if scr = [] \<or> substring_in ERROR_MARKER scr
                   then (failure_report tid initial_script, s1)
                   else call_execute sv tid scr RESULTS_DIR s1)
        in (Some test_report, log_event (EvSleep 2) s2))"

text \<open>
  The loop of line 57 over \<open>enumerate(test_cases)\<close> from index \<open>i\<close>, with the list
  \<open>final_report["test_cases"]\<close> built so far as \<open>acc\<close>.
\<close>

fun run_cases ::
  "'w services \<Rightarrow> nat \<Rightarrow> test_case list \<Rightarrow> test_report list \<Rightarrow> 'w state
     \<Rightarrow> test_report list \<times> 'w state" where
  "run_cases sv i [] acc s = (acc, s)"
| "run_cases sv i (tc # tcs) acc s =
     (case process_test_case sv i tc s of
        (None, s') \<Rightarrow> run_cases sv (Suc i) tcs acc s'
      | (Some r, s') \<Rightarrow> run_cases sv (Suc i) tcs (acc @ [r]) s')"

text \<open>
  Lines 51-85: the report of one batch, built under the run identifier \<open>rid\<close> from the
  parsed rows. It is a local value of the handler until line 87.
\<close>

definition run_batch ::
  "'w services \<Rightarrow> string \<Rightarrow> test_case list \<Rightarrow> 'w state \<Rightarrow> run_report \<times> 'w state" where
  "run_batch sv rid tcs s =
     (let (reports, s') = run_cases sv 0 tcs [] s
      in (\<lparr>run_id = rid, test_cases = reports\<rparr>, s'))"

text \<open>Lines 36-88.\<close>

definition handle_test_run :: "'w services \<Rightarrow> upload \<Rightarrow> 'w state \<Rightarrow> response \<times> 'w state" where
  "handle_test_run sv test_file s =
     (let file_path = os_path_join UPLOADS_DIR (filename test_file);
          s0 = log_event (EvWriteFile file_path)
                 (s\<lparr>world := write_file sv file_path (file_bytes test_file) (world s)\<rparr>);
          (parsed, w1) = parse_test_file sv file_path (world s0);
          s1 = log_event (EvParse file_path) (s0\<lparr>world := w1\<rparr>)
      in case parsed of
           Inl e \<Rightarrow> (IndexPage (Some (''Failed to parse file: '' @ e)), s1)
         | Inr tcs \<Rightarrow>
             let (rid, w2) = uuid4 sv (world s1);
                 s2 = log_event EvUuid (s1\<lparr>world := w2\<rparr>);
                 (final_report, s3) = run_batch sv rid tcs s2;
                 s4 = log_event (EvStore rid)
                        (s3\<lparr>REPORT_DB := (REPORT_DB s3)(rid \<mapsto> final_report)\<rparr>)
             in (RedirectResponse (''/report/'' @ rid) 303, s4))"

section \<open>Report retrieval (\<open>view_report\<close>)\<close>

text \<open>
  Lines 91-98. A stored report is a dict with the two keys of lines 52-55, so
  \<open>not report_data\<close> holds only when \<open>REPORT_DB.get\<close> returned \<open>None\<close>.
\<close>

definition view_report :: "string \<Rightarrow> 'w state \<Rightarrow> response \<times> 'w state" where
  "view_report rid s =
     (case REPORT_DB s rid of
        None \<Rightarrow> (IndexPage (Some ''Report not found!''), s)
      | Some report_data \<Rightarrow> (ReportPage report_data, s))"

section \<open>The application as a machine over requests\<close>

text \<open>Line 30-33: the upload page.\<close>

definition read_root :: "'w state \<Rightarrow> response \<times> 'w state" where
  "read_root s = (IndexPage None, s)"

text \<open>The three routes of the application, and a sequence of requests served in order.\<close>

datatype request = GetRoot | PostRunTests upload | GetReport string

fun route :: "'w services \<Rightarrow> request \<Rightarrow> 'w state \<Rightarrow> response \<times> 'w state" where
  "route sv GetRoot s = read_root s"
| "route sv (PostRunTests test_file) s = handle_test_run sv test_file s"
| "route sv (GetReport rid) s = view_report rid s"

fun serve :: "'w services \<Rightarrow> request list \<Rightarrow> 'w state \<Rightarrow> 'w state" where
  "serve sv [] s = s"
| "serve sv (rq # rqs) s = serve sv rqs (snd (route sv rq s))"

text \<open>The process starts with \<open>REPORT_DB = {}\<close> (line 28) and nothing done yet.\<close>

definition initial_state :: "'w \<Rightarrow> 'w state" where
  "initial_state w = \<lparr>world = w, REPORT_DB = Map.empty, trace = []\<rparr>"

section \<open>The retry controller behind \<open>executor.execute_test_case\<close>\<close>

text \<open>
  Modelled from the spec: the result of the Script Executor (section 4.2),
  \<open>ExecutionResult { outcome: Pass|Fail, stdout, stderr, exitCode, artifactPaths }\<close>.
  The module \<open>mcp.executor\<close> is not among the sources.
\<close>

datatype exec_outcome = Pass | Fail

record execution_result =
  er_outcome :: exec_outcome
  er_stdout :: string
  er_stderr :: string
  er_exit_code :: int
  er_artifact_paths :: "string list"

fun outcome_text :: "exec_outcome \<Rightarrow> string" where
  "outcome_text Pass = ''Pass''"
| "outcome_text Fail = ''Fail''"

text \<open>
  Modelled from the spec: the collaborators of the Retry Controller (section 4.4) and
  its configured constant: the Script Executor \<open>execute(script, workDir)\<close> of section
  4.2, the Failure Diagnoser \<open>repair(testCase, previousScript, executionResult)\<close> of
  section 4.3, and max-retries. The controller is called with the identifier of the
  test case only (line 80), so that identifier stands for the test case.
\<close>

record 'w controller =
  max_retries :: nat
  run_script :: "string \<Rightarrow> string \<Rightarrow> 'w \<Rightarrow> execution_result \<times> 'w"
  repair :: "string \<Rightarrow> string \<Rightarrow> execution_result \<Rightarrow> 'w \<Rightarrow> string option \<times> 'w"

text \<open>
  Modelled from the spec: the states Executing, Diagnosing, Passed and Exhausted of
  section 4.4, for the missing \<open>executor.execute_test_case\<close>. \<open>counter\<close> is the attempt
  counter before this visit of Executing and \<open>hist\<close> the attempts recorded so far. Each
  visit runs the script, records an attempt and increments the counter; a pass ends in
  Passed; a failure with the counter at most max-retries goes through Diagnosing and
  back; a failure with the counter above max-retries ends in Exhausted. A generation
  failure of the diagnoser (same test as section 4.1) ends in Exhausted with the
  generation error as the diagnostic of a last, synthetic attempt, in the shape lines
  68-78 give the one for the initial script.
\<close>

function retry_loop ::
  "'w controller \<Rightarrow> string \<Rightarrow> string \<Rightarrow> nat \<Rightarrow> string \<Rightarrow> attempt list \<Rightarrow> 'w
     \<Rightarrow> test_report \<times> 'w" where
  "retry_loop c tid dir counter scr hist w =
     (let (res, w1) = run_script c scr dir w;
          counter' = counter + 1;
          hist' = hist @ [\<lparr>attempt = counter', script = scr,
                            outcome = outcome_text (er_outcome res),
                            error = Some (er_stderr res)\<rparr>]
      in if er_outcome res = Pass
         then (\<lparr>test_case_id = tid, status = ''Pass'', retries = counter' - 1,
                 history = hist'\<rparr>, w1)
         else if counter' \<le> max_retries c
         then (let (repaired, w2) = repair c tid scr res w1
               in if generation_failed repaired
                  then (\<lparr>test_case_id = tid, status = ''Fail'', retries = counter' - 1,
                          history = hist' @
                            [\<lparr>attempt = counter' + 1,
                              script = ''Failed to generate script from Gemini.'',
                              outcome = ''Fail'', error = repaired\<rparr>]\<rparr>, w2)
                  else retry_loop c tid dir counter' (case repaired of Some r \<Rightarrow> r | None \<Rightarrow> [])
                         hist' w2)
         else (\<lparr>test_case_id = tid, status = ''Fail'', retries = counter' - 1,
                 history = hist'\<rparr>, w1))"
  by pat_completeness auto
termination
  by (relation "measure (\<lambda>(c, tid, dir, counter, scr, hist, w). Suc (max_retries c) - counter)")
     auto

text \<open>
  Modelled from the spec: \<open>executor.execute_test_case(test_case_id, script,
  results_dir)\<close> as the Retry Controller entered at Executing with the initial script,
  the attempt counter at 0 and an empty history (state Init of section 4.4); the working
  directory is scoped under the results root by the test case (section 4.2).
\<close>

definition retry_controller ::
  "'w controller \<Rightarrow> string \<Rightarrow> string \<Rightarrow> string \<Rightarrow> 'w \<Rightarrow> test_report \<times> 'w" where
  "retry_controller c tid scr results_dir w =
     retry_loop c tid (os_path_join results_dir tid) 0 scr [] w"

section \<open>The identifier rule in the words of the specification\<close>

text \<open>
  The specification counts the records "with non-empty identifiers" and skips those
  whose identifier is "empty or missing": a record has a usable identifier when the
  identifier column is present and its text is not empty.
\<close>

definition has_identifier_spec :: "test_case \<Rightarrow> bool" where
  "has_identifier_spec tc =
     (case tc ID_KEY of None \<Rightarrow> False | Some v \<Rightarrow> py_str v \<noteq> [])"

section \<open>Mock collaborators for the worked examples\<close>

text \<open>
  A deterministic generator, executor and diagnoser over a world that only counts the
  calls made. The generator answers with the row's \<open>Script\<close> column and with the error
  marker when there is none; the script \<open>good\<close> passes and every other script fails;
  the diagnoser always proposes \<open>fix\<close>.
\<close>

definition mock_controller :: "nat \<Rightarrow> string \<Rightarrow> nat controller" where
  "mock_controller n fix =
     \<lparr>max_retries = n,
      run_script = (\<lambda>scr dir w.
        (if scr = ''good''
         then \<lparr>er_outcome = Pass, er_stdout = ''ok'', er_stderr = [], er_exit_code = 0,
               er_artifact_paths = []\<rparr>
         else \<lparr>er_outcome = Fail, er_stdout = [], er_stderr = ''boom'', er_exit_code = 1,
               er_artifact_paths = []\<rparr>, Suc w)),
      repair = (\<lambda>tid scr res w. (Some fix, Suc w))\<rparr>"

definition tc_login :: test_case where
  "tc_login = [ID_KEY \<mapsto> PStr ''TC_LOGIN'', ''Script'' \<mapsto> PStr ''bad'']"

definition tc_blank :: test_case where
  "tc_blank = [ID_KEY \<mapsto> PStr [], ''Script'' \<mapsto> PStr ''good'']"

definition tc_unnamed :: test_case where
  "tc_unnamed = [''Script'' \<mapsto> PStr ''good'']"

definition tc_numbered :: test_case where
  "tc_numbered = [ID_KEY \<mapsto> PInt 7]"

definition mock_cases :: "test_case list" where
  "mock_cases = [tc_login, tc_blank, tc_unnamed, tc_numbered]"

definition mock_services :: "nat controller \<Rightarrow> nat services" where
  "mock_services c =
     \<lparr>write_file = (\<lambda>p b w. Suc w),
      parse_test_file = (\<lambda>p w.
        (if p = ''uploads/cases.csv'' then Inr mock_cases else Inl ''unsupported file'',
         Suc w)),
      uuid4 = (\<lambda>w. (''run-'' @ str_nat w, Suc w)),
      generate_initial_script = (\<lambda>tc w.
        (case tc ''Script'' of
           Some (PStr scr) \<Rightarrow> Some scr
         | _ \<Rightarrow> Some ''# Gemini API Error: quota exceeded'', Suc w)),
      execute_test_case = retry_controller c\<rparr>"

definition cases_upload :: upload where
  "cases_upload = \<lparr>filename = ''cases.csv'', file_bytes = ''TestCase Name/ID,Script''\<rparr>"

definition notes_upload :: upload where
  "notes_upload = \<lparr>filename = ''notes.txt'', file_bytes = ''hello''\<rparr>"

section \<open>Properties of one pass through the loop body\<close>

lemma str_nat_nonempty: "str_nat n \<noteq> []"
  by (subst str_nat.simps) simp

lemma py_str_empty: "py_str v = [] \<longleftrightarrow> v = PStr []"
  by (cases v) (auto simp: str_int_def str_nat_nonempty)

lemma case_id_empty: "case_id i tc = [] \<longleftrightarrow> tc ID_KEY = Some (PStr [])"
  by (auto simp: case_id_def py_str_empty split: option.splits)

lemma process_skip: "case_id i tc = [] \<Longrightarrow> process_test_case sv i tc s = (None, s)"
  by (simp add: process_test_case_def)

lemma process_failed:
  assumes "case_id i tc \<noteq> []"
    and "generate_initial_script sv tc (world s) = (g, w)"
    and "generation_failed g"
  shows "process_test_case sv i tc s =
           (Some (failure_report (case_id i tc) g),
            s\<lparr>world := w, trace := trace s @ [EvGenerate tc, EvSleep 2]\<rparr>)"
proof (cases g)
  case None
  then show ?thesis using assms(1,2)
    by (simp add: process_test_case_def call_generate_def log_event_def)
next
  case (Some scr)
  then have "scr = [] \<or> substring_in ERROR_MARKER scr"
    using assms(3) by (simp add: generation_failed_def)
  then show ?thesis using assms(1,2) Some
    by (simp add: process_test_case_def call_generate_def log_event_def)
qed

lemma process_executed:
  assumes "case_id i tc \<noteq> []"
    and "generate_initial_script sv tc (world s) = (Some scr, w)"
    and "\<not> generation_failed (Some scr)"
    and "execute_test_case sv (case_id i tc) scr RESULTS_DIR w = (r, w')"
  shows "process_test_case sv i tc s =
           (Some r,
            s\<lparr>world := w', trace := trace s @
               [EvGenerate tc, EvExecute (case_id i tc) scr RESULTS_DIR, EvSleep 2]\<rparr>)"
proof -
  have "\<not> (scr = [] \<or> substring_in ERROR_MARKER scr)"
    using assms(3) by (simp add: generation_failed_def)
  then show ?thesis using assms(1,2,4)
    by (simp add: process_test_case_def call_generate_def call_execute_def log_event_def)
qed



lemma process_cases:
  obtains (skip) "case_id i tc = []" "process_test_case sv i tc s = (None, s)"
  | (failed) g w where "case_id i tc \<noteq> []"
      "generate_initial_script sv tc (world s) = (g, w)" "generation_failed g"
      "process_test_case sv i tc s =
           (Some (failure_report (case_id i tc) g),
            s\<lparr>world := w, trace := trace s @ [EvGenerate tc, EvSleep 2]\<rparr>)"
  | (executed) scr w r w' where "case_id i tc \<noteq> []"
      "generate_initial_script sv tc (world s) = (Some scr, w)"
      "\<not> generation_failed (Some scr)"
      "execute_test_case sv (case_id i tc) scr RESULTS_DIR w = (r, w')"
      "process_test_case sv i tc s =
           (Some r,
            s\<lparr>world := w', trace := trace s @
               [EvGenerate tc, EvExecute (case_id i tc) scr RESULTS_DIR, EvSleep 2]\<rparr>)"
proof (cases "case_id i tc = []")
  case True
  show ?thesis by (rule skip [OF True process_skip [OF True]])
next
  case False
  obtain g w where g: "generate_initial_script sv tc (world s) = (g, w)"
    by (cases "generate_initial_script sv tc (world s)")
  show ?thesis
  proof (cases "generation_failed g")
    case True
    show ?thesis by (rule failed [OF False g True process_failed [OF False g True]])
  next
    case nf: False
    then obtain scr where scr: "g = Some scr"
      by (cases g) (simp_all add: generation_failed_def)
    obtain r w' where e: "execute_test_case sv (case_id i tc) scr RESULTS_DIR w = (r, w')"
      by (cases "execute_test_case sv (case_id i tc) scr RESULTS_DIR w")
    note g' = g [unfolded scr] and nf' = nf [unfolded scr]
    show ?thesis
      by (rule executed [OF False g' nf' e process_executed [OF False g' nf' e]])
  qed
qed

lemma process_db: "REPORT_DB (snd (process_test_case sv i tc s)) = REPORT_DB s"
  by (rule process_cases [of i tc sv s]) simp_all

lemma process_trace:
  "\<exists>evs. trace (snd (process_test_case sv i tc s)) = trace s @ evs \<and>
         (\<forall>e \<in> set evs. \<not> is_store e) \<and>
         length (filter is_generate evs) = (if case_id i tc = [] then 0 else 1)"
  by (rule process_cases [of i tc sv s]) simp_all

lemma process_None_iff: "fst (process_test_case sv i tc s) = None \<longleftrightarrow> case_id i tc = []"
  by (rule process_cases [of i tc sv s]) simp_all

section \<open>Properties of the loop over the records\<close>

lemma run_cases_step:
  "run_cases sv i (tc # tcs) acc s =
     run_cases sv (Suc i) tcs
       (case fst (process_test_case sv i tc s) of None \<Rightarrow> acc | Some r \<Rightarrow> acc @ [r])
       (snd (process_test_case sv i tc s))"
  by (cases "process_test_case sv i tc s") (simp split: option.splits)

lemma run_cases_length:
  "length (fst (run_cases sv i tcs acc s)) =
     length acc + length (filter (\<lambda>tc. tc ID_KEY \<noteq> Some (PStr [])) tcs)"
proof (induction tcs arbitrary: i acc s)
  case Nil
  show ?case by simp
next
  case (Cons tc tcs)
  show ?case
  proof (cases "fst (process_test_case sv i tc s)")
    case None
    then have "tc ID_KEY = Some (PStr [])"
      by (simp add: process_None_iff case_id_empty)
    then show ?thesis using None Cons.IH by (simp add: run_cases_step del: run_cases.simps)
  next
    case (Some r)
    then have "tc ID_KEY \<noteq> Some (PStr [])"
      using process_None_iff [of sv i tc s] by (simp add: case_id_empty)
    then show ?thesis using Some Cons.IH by (simp add: run_cases_step del: run_cases.simps)
  qed
qed

lemma run_cases_db: "REPORT_DB (snd (run_cases sv i tcs acc s)) = REPORT_DB s"
proof (induction tcs arbitrary: i acc s)
  case Nil
  show ?case by simp
next
  case (Cons tc tcs)
  show ?case by (simp only: run_cases_step Cons.IH process_db)
qed

lemma run_cases_trace:
  "\<exists>evs. trace (snd (run_cases sv i tcs acc s)) = trace s @ evs \<and>
         (\<forall>e \<in> set evs. \<not> is_store e) \<and>
         length (filter is_generate evs) =
           length (filter (\<lambda>tc. tc ID_KEY \<noteq> Some (PStr [])) tcs)"
proof (induction tcs arbitrary: i acc s)
  case Nil
  show ?case by simp
next
  case (Cons tc tcs)
  let ?s1 = "snd (process_test_case sv i tc s)"
  let ?acc1 = "case fst (process_test_case sv i tc s) of None \<Rightarrow> acc | Some r \<Rightarrow> acc @ [r]"
  obtain e1 where e1: "trace ?s1 = trace s @ e1" "\<forall>e \<in> set e1. \<not> is_store e"
    "length (filter is_generate e1) = (if case_id i tc = [] then 0 else 1)"
    using process_trace [of sv i tc s] by blast
  obtain e2 where e2: "trace (snd (run_cases sv (Suc i) tcs ?acc1 ?s1)) = trace ?s1 @ e2"
    "\<forall>e \<in> set e2. \<not> is_store e"
    "length (filter is_generate e2) =
       length (filter (\<lambda>tc. tc ID_KEY \<noteq> Some (PStr [])) tcs)"
    using Cons.IH [of "Suc i" ?acc1 ?s1] by blast
  have "trace (snd (run_cases sv i (tc # tcs) acc s)) = trace s @ (e1 @ e2)"
    using e1(1) e2(1) by (simp add: run_cases_step del: run_cases.simps)
  moreover have "\<forall>e \<in> set (e1 @ e2). \<not> is_store e"
    using e1(2) e2(2) by auto
  moreover have "length (filter is_generate (e1 @ e2)) =
      length (filter (\<lambda>tc. tc ID_KEY \<noteq> Some (PStr [])) (tc # tcs))"
    using e1(3) e2(3) by (simp add: case_id_empty)
  ultimately show ?case by blast
qed

lemma run_cases_append:
  "run_cases sv i (xs @ ys) acc s =
     run_cases sv (i + length xs) ys (fst (run_cases sv i xs acc s))
       (snd (run_cases sv i xs acc s))"
proof (induction xs arbitrary: i acc s)
  case Nil
  show ?case by simp
next
  case (Cons x xs)
  show ?case by (simp add: run_cases_step Cons.IH del: run_cases.simps)
qed

lemma run_cases_all:
  assumes acc: "\<forall>r \<in> set acc. P r"
    and step: "\<And>i tc s r. fst (process_test_case sv i tc s) = Some r \<Longrightarrow> P r"
  shows "\<forall>r \<in> set (fst (run_cases sv i tcs acc s)). P r"
  using acc
proof (induction tcs arbitrary: i acc s)
  case Nil
  then show ?case by simp
next
  case (Cons tc tcs)
  have "\<forall>r \<in> set (case fst (process_test_case sv i tc s) of None \<Rightarrow> acc
                      | Some r \<Rightarrow> acc @ [r]). P r"
    using Cons.prems step [of i tc s] by (auto split: option.splits)
  then show ?case unfolding run_cases_step by (rule Cons.IH)
qed

lemma run_cases_ids:
  assumes lab: "\<And>tid scr dir w. test_case_id (fst (execute_test_case sv tid scr dir w)) = tid"
  shows "map test_case_id (fst (run_cases sv i tcs acc s)) =
           map test_case_id acc @
           filter (\<lambda>t. t \<noteq> []) (map (\<lambda>(j, tc). case_id j tc) (enumerate i tcs))"
proof (induction tcs arbitrary: i acc s)
  case Nil
  show ?case by simp
next
  case (Cons tc tcs)
  show ?case
  proof (rule process_cases [of i tc sv s])
    assume "case_id i tc = []" "process_test_case sv i tc s = (None, s)"
    then show ?thesis by (simp add: Cons.IH)
  next
    fix g w
    assume "case_id i tc \<noteq> []" "process_test_case sv i tc s =
           (Some (failure_report (case_id i tc) g),
            s\<lparr>world := w, trace := trace s @ [EvGenerate tc, EvSleep 2]\<rparr>)"
    then show ?thesis by (simp add: Cons.IH failure_report_def)
  next
    fix scr w r w'
    assume a: "case_id i tc \<noteq> []"
      "execute_test_case sv (case_id i tc) scr RESULTS_DIR w = (r, w')"
      "process_test_case sv i tc s =
           (Some r,
            s\<lparr>world := w', trace := trace s @
               [EvGenerate tc, EvExecute (case_id i tc) scr RESULTS_DIR, EvSleep 2]\<rparr>)"
    have "test_case_id r = case_id i tc"
      using lab [of "case_id i tc" scr RESULTS_DIR w] a(2) by simp
    then show ?thesis using a(1,3) by (simp add: Cons.IH)
  qed
qed

lemma process_det:
  assumes gen: "\<And>tc w w'. fst (generate_initial_script sv tc w) = fst (generate_initial_script sv tc w')"
    and exe: "\<And>tid scr dir w w'.
        fst (execute_test_case sv tid scr dir w) = fst (execute_test_case sv tid scr dir w')"
  shows "fst (process_test_case sv i tc s) = fst (process_test_case sv i tc s')"
proof (cases "case_id i tc = []")
  case True
  then show ?thesis by (simp add: process_skip)
next
  case False
  obtain g w where g: "generate_initial_script sv tc (world s) = (g, w)"
    by (cases "generate_initial_script sv tc (world s)")
  obtain g' v where g': "generate_initial_script sv tc (world s') = (g', v)"
    by (cases "generate_initial_script sv tc (world s')")
  have gg: "g' = g" using gen [of tc "world s" "world s'"] g g' by simp
  show ?thesis
  proof (cases "generation_failed g")
    case True
    show ?thesis
      using process_failed [OF False g True] process_failed [OF False g' [unfolded gg] True]
      by simp
  next
    case nf: False
    then obtain scr where scr: "g = Some scr"
      by (cases g) (simp_all add: generation_failed_def)
    obtain r w1 where e: "execute_test_case sv (case_id i tc) scr RESULTS_DIR w = (r, w1)"
      by (cases "execute_test_case sv (case_id i tc) scr RESULTS_DIR w")
    obtain r' v1 where e': "execute_test_case sv (case_id i tc) scr RESULTS_DIR v = (r', v1)"
      by (cases "execute_test_case sv (case_id i tc) scr RESULTS_DIR v")
    have rr: "r' = r" using exe [of "case_id i tc" scr RESULTS_DIR w v] e e' by simp
    show ?thesis
      using process_executed [OF False g [unfolded scr] nf [unfolded scr] e]
        process_executed [OF False g' [unfolded gg scr] nf [unfolded scr] e' [unfolded rr]]
      by simp
  qed
qed

lemma run_cases_det:
  assumes gen: "\<And>tc w w'. fst (generate_initial_script sv tc w) = fst (generate_initial_script sv tc w')"
    and exe: "\<And>tid scr dir w w'.
        fst (execute_test_case sv tid scr dir w) = fst (execute_test_case sv tid scr dir w')"
  shows "fst (run_cases sv i tcs acc s) = fst (run_cases sv i tcs acc s')"
proof (induction tcs arbitrary: i acc s s')
  case Nil
  show ?case by simp
next
  case (Cons tc tcs)
  have eq: "fst (process_test_case sv i tc s) = fst (process_test_case sv i tc s')"
    by (rule process_det [OF gen exe])
  show ?case
    unfolding run_cases_step eq
    by (rule Cons.IH)
qed

section \<open>Properties of the retry controller\<close>

declare retry_loop.simps [simp del]

lemma outcome_text_Pass: "outcome_text x = ''Pass'' \<longleftrightarrow> x = Pass"
  by (cases x) simp_all

lemma retry_loop_passed:
  assumes "run_script c scr dir w = (res, w1)" and "er_outcome res = Pass"
  shows "retry_loop c tid dir counter scr hist w =
           (\<lparr>test_case_id = tid, status = ''Pass'', retries = counter,
             history = hist @ [\<lparr>attempt = counter + 1, script = scr, outcome = ''Pass'',
                                 error = Some (er_stderr res)\<rparr>]\<rparr>, w1)"
  by (subst retry_loop.simps) (simp add: assms)

lemma retry_loop_exhausted:
  assumes "run_script c scr dir w = (res, w1)" and "er_outcome res = Fail"
    and "max_retries c < counter + 1"
  shows "retry_loop c tid dir counter scr hist w =
           (\<lparr>test_case_id = tid, status = ''Fail'', retries = counter,
             history = hist @ [\<lparr>attempt = counter + 1, script = scr, outcome = ''Fail'',
                                 error = Some (er_stderr res)\<rparr>]\<rparr>, w1)"
  using assms(3) by (subst retry_loop.simps) (simp add: assms(1,2))

lemma retry_loop_undiagnosed:
  assumes "run_script c scr dir w = (res, w1)" and "er_outcome res = Fail"
    and "counter + 1 \<le> max_retries c"
    and "repair c tid scr res w1 = (repaired, w2)" and "generation_failed repaired"
  shows "retry_loop c tid dir counter scr hist w =
           (\<lparr>test_case_id = tid, status = ''Fail'', retries = counter,
             history = hist @
               [\<lparr>attempt = counter + 1, script = scr, outcome = ''Fail'',
                 error = Some (er_stderr res)\<rparr>,
                \<lparr>attempt = counter + 2, script = ''Failed to generate script from Gemini.'',
                 outcome = ''Fail'', error = repaired\<rparr>]\<rparr>, w2)"
  using assms(3,5) by (subst retry_loop.simps) (simp add: assms(1,2,4))

lemma retry_loop_retried:
  assumes "run_script c scr dir w = (res, w1)" and "er_outcome res = Fail"
    and "counter + 1 \<le> max_retries c"
    and "repair c tid scr res w1 = (Some scr', w2)" and "\<not> generation_failed (Some scr')"
  shows "retry_loop c tid dir counter scr hist w =
           retry_loop c tid dir (counter + 1) scr'
             (hist @ [\<lparr>attempt = counter + 1, script = scr, outcome = ''Fail'',
                        error = Some (er_stderr res)\<rparr>]) w2"
  using assms(3,5) by (subst retry_loop.simps) (simp add: assms(1,2,4))


lemma exec_outcome_cases: "x \<noteq> Pass \<Longrightarrow> x = Fail"
  by (cases x) simp_all

lemma retry_loop_cases:
  obtains (passed) res :: execution_result and w1 where
      "retry_loop c tid dir counter scr hist w =
           (\<lparr>test_case_id = tid, status = ''Pass'', retries = counter,
             history = hist @ [\<lparr>attempt = counter + 1, script = scr, outcome = ''Pass'',
                                 error = Some (er_stderr res)\<rparr>]\<rparr>, w1)"
  | (exhausted) res :: execution_result and w1 where "max_retries c < counter + 1"
      "retry_loop c tid dir counter scr hist w =
           (\<lparr>test_case_id = tid, status = ''Fail'', retries = counter,
             history = hist @ [\<lparr>attempt = counter + 1, script = scr, outcome = ''Fail'',
                                 error = Some (er_stderr res)\<rparr>]\<rparr>, w1)"
  | (undiagnosed) res :: execution_result and repaired w2 where "counter + 1 \<le> max_retries c"
      "retry_loop c tid dir counter scr hist w =
           (\<lparr>test_case_id = tid, status = ''Fail'', retries = counter,
             history = hist @
               [\<lparr>attempt = counter + 1, script = scr, outcome = ''Fail'',
                 error = Some (er_stderr res)\<rparr>,
                \<lparr>attempt = counter + 2, script = ''Failed to generate script from Gemini.'',
                 outcome = ''Fail'', error = repaired\<rparr>]\<rparr>, w2)"
  | (retried) res :: execution_result and scr' w2 where "counter + 1 \<le> max_retries c"
      "retry_loop c tid dir counter scr hist w =
           retry_loop c tid dir (counter + 1) scr'
             (hist @ [\<lparr>attempt = counter + 1, script = scr, outcome = ''Fail'',
                        error = Some (er_stderr res)\<rparr>]) w2"
proof -
  obtain res w1 where run: "run_script c scr dir w = (res, w1)"
    by (cases "run_script c scr dir w")
  show ?thesis
  proof (cases "er_outcome res = Pass")
    case True
    show ?thesis by (rule passed [OF retry_loop_passed [OF run True]])
  next
    case False
    then have fail: "er_outcome res = Fail" by (rule exec_outcome_cases)
    show ?thesis
    proof (cases "counter + 1 \<le> max_retries c")
      case False
      then have gt: "max_retries c < counter + 1" by simp
      show ?thesis by (rule exhausted [OF gt retry_loop_exhausted [OF run fail gt]])
    next
      case le: True
      obtain repaired w2 where rep: "repair c tid scr res w1 = (repaired, w2)"
        by (cases "repair c tid scr res w1")
      show ?thesis
      proof (cases "generation_failed repaired")
        case True
        show ?thesis by (rule undiagnosed [OF le retry_loop_undiagnosed [OF run fail le rep True]])
      next
        case nf: False
        then obtain scr' where scr': "repaired = Some scr'"
          by (cases repaired) (simp_all add: generation_failed_def)
        show ?thesis
          by (rule retried [OF le retry_loop_retried
                [OF run fail le rep [unfolded scr'] nf [unfolded scr']]])
      qed
    qed
  qed
qed

lemma retry_loop_id: "test_case_id (fst (retry_loop c tid dir counter scr hist w)) = tid"
proof (induction "Suc (max_retries c) - counter" arbitrary: counter scr hist w rule: less_induct)
  case less
  show ?case
  proof (rule retry_loop_cases [of c tid dir counter scr hist w])
    fix res :: execution_result and scr' w2
    assume le: "counter + 1 \<le> max_retries c"
      and eq: "retry_loop c tid dir counter scr hist w =
           retry_loop c tid dir (counter + 1) scr'
             (hist @ [\<lparr>attempt = counter + 1, script = scr, outcome = ''Fail'',
                        error = Some (er_stderr res)\<rparr>]) w2"
    have "Suc (max_retries c) - (counter + 1) < Suc (max_retries c) - counter"
      using le by simp
    then show ?thesis unfolding eq by (rule less)
  qed simp_all
qed

lemma retry_loop_status:
  "history (fst (retry_loop c tid dir counter scr hist w)) \<noteq> [] \<and>
   (status (fst (retry_loop c tid dir counter scr hist w)) = ''Pass'' \<longleftrightarrow>
    outcome (last (history (fst (retry_loop c tid dir counter scr hist w)))) = ''Pass'')"
proof (induction "Suc (max_retries c) - counter" arbitrary: counter scr hist w rule: less_induct)
  case less
  show ?case
  proof (rule retry_loop_cases [of c tid dir counter scr hist w])
    fix res :: execution_result and scr' w2
    assume le: "counter + 1 \<le> max_retries c"
      and eq: "retry_loop c tid dir counter scr hist w =
           retry_loop c tid dir (counter + 1) scr'
             (hist @ [\<lparr>attempt = counter + 1, script = scr, outcome = ''Fail'',
                        error = Some (er_stderr res)\<rparr>]) w2"
    have "Suc (max_retries c) - (counter + 1) < Suc (max_retries c) - counter"
      using le by simp
    then show ?thesis unfolding eq by (rule less)
  qed simp_all
qed

lemma retry_loop_length:
  "counter \<le> max_retries c \<Longrightarrow>
   length hist < length (history (fst (retry_loop c tid dir counter scr hist w))) \<and>
   length (history (fst (retry_loop c tid dir counter scr hist w)))
     \<le> length hist + (max_retries c + 1 - counter)"
proof (induction "Suc (max_retries c) - counter" arbitrary: counter scr hist w rule: less_induct)
  case less
  show ?case
  proof (rule retry_loop_cases [of c tid dir counter scr hist w])
    fix res :: execution_result and scr' w2
    let ?hist' = "hist @ [\<lparr>attempt = counter + 1, script = scr, outcome = ''Fail'',
                        error = Some (er_stderr res)\<rparr>]"
    assume le: "counter + 1 \<le> max_retries c"
      and eq: "retry_loop c tid dir counter scr hist w =
           retry_loop c tid dir (counter + 1) scr' ?hist' w2"
    have "Suc (max_retries c) - (counter + 1) < Suc (max_retries c) - counter"
      using le by simp
    then have "length ?hist' < length (history (fst (retry_loop c tid dir (counter + 1) scr' ?hist' w2))) \<and>
        length (history (fst (retry_loop c tid dir (counter + 1) scr' ?hist' w2)))
          \<le> length ?hist' + (max_retries c + 1 - (counter + 1))"
      using le by (rule less.hyps)
    then show ?thesis unfolding eq using le by (simp, arith)
  next
    fix res :: execution_result and repaired w2
    assume "counter + 1 \<le> max_retries c"
      "retry_loop c tid dir counter scr hist w =
           (\<lparr>test_case_id = tid, status = ''Fail'', retries = counter,
             history = hist @
               [\<lparr>attempt = counter + 1, script = scr, outcome = ''Fail'',
                 error = Some (er_stderr res)\<rparr>,
                \<lparr>attempt = counter + 2, script = ''Failed to generate script from Gemini.'',
                 outcome = ''Fail'', error = repaired\<rparr>]\<rparr>, w2)"
    then show ?thesis by simp
  qed (use less.prems in simp_all)
qed

lemma retry_controller_id: "test_case_id (fst (retry_controller c tid scr dir w)) = tid"
  by (simp add: retry_controller_def retry_loop_id)

lemma retry_controller_status:
  "history (fst (retry_controller c tid scr dir w)) \<noteq> [] \<and>
   (status (fst (retry_controller c tid scr dir w)) = ''Pass'' \<longleftrightarrow>
    outcome (last (history (fst (retry_controller c tid scr dir w)))) = ''Pass'')"
  unfolding retry_controller_def by (rule retry_loop_status)

lemma retry_controller_length:
  "1 \<le> length (history (fst (retry_controller c tid scr dir w))) \<and>
   length (history (fst (retry_controller c tid scr dir w))) \<le> max_retries c + 1"
  using retry_loop_length [of 0 c "[]" tid "os_path_join dir tid" scr w]
  by (simp add: retry_controller_def Suc_le_eq)

section \<open>Properties of the handlers\<close>

lemma run_batch_run_id: "run_id (fst (run_batch sv rid tcs s)) = rid"
  by (simp add: run_batch_def split: prod.splits)

lemma run_batch_test_cases:
  "test_cases (fst (run_batch sv rid tcs s)) = fst (run_cases sv 0 tcs [] s)"
  by (simp add: run_batch_def split: prod.splits)

lemma run_batch_state: "snd (run_batch sv rid tcs s) = snd (run_cases sv 0 tcs [] s)"
  by (simp add: run_batch_def split: prod.splits)

lemma handle_parse_failed:
  assumes "parse_test_file sv (os_path_join UPLOADS_DIR (filename f))
             (write_file sv (os_path_join UPLOADS_DIR (filename f)) (file_bytes f) (world s))
           = (Inl e, w1)"
  shows "handle_test_run sv f s =
           (IndexPage (Some (''Failed to parse file: '' @ e)),
            s\<lparr>world := w1,
              trace := trace s @ [EvWriteFile (os_path_join UPLOADS_DIR (filename f)),
                                  EvParse (os_path_join UPLOADS_DIR (filename f))]\<rparr>)"
  using assms by (simp add: handle_test_run_def log_event_def Let_def)

lemma handle_parsed:
  assumes "parse_test_file sv (os_path_join UPLOADS_DIR (filename f))
             (write_file sv (os_path_join UPLOADS_DIR (filename f)) (file_bytes f) (world s))
           = (Inr tcs, w1)"
    and "uuid4 sv w1 = (rid, w2)"
    and "run_batch sv rid tcs
           (s\<lparr>world := w2,
              trace := trace s @ [EvWriteFile (os_path_join UPLOADS_DIR (filename f)),
                                  EvParse (os_path_join UPLOADS_DIR (filename f)), EvUuid]\<rparr>)
         = (final_report, s3)"
  shows "handle_test_run sv f s =
           (RedirectResponse (''/report/'' @ rid) 303,
            s3\<lparr>REPORT_DB := (REPORT_DB s3)(rid \<mapsto> final_report),
               trace := trace s3 @ [EvStore rid]\<rparr>)"
  using assms by (simp add: handle_test_run_def log_event_def Let_def)

lemma retry_loop_det:
  assumes run: "\<And>scr dir w w'. fst (run_script c scr dir w) = fst (run_script c scr dir w')"
    and rep: "\<And>tid scr res w w'. fst (repair c tid scr res w) = fst (repair c tid scr res w')"
  shows "fst (retry_loop c tid dir counter scr hist w) =
         fst (retry_loop c tid dir counter scr hist w')"
proof (induction "Suc (max_retries c) - counter" arbitrary: counter scr hist w w'
    rule: less_induct)
  case less
  obtain res w1 where r1: "run_script c scr dir w = (res, w1)"
    by (cases "run_script c scr dir w")
  obtain res' w1' where r2: "run_script c scr dir w' = (res', w1')"
    by (cases "run_script c scr dir w'")
  have "res' = res" using run [of scr dir w w'] r1 r2 by simp
  note r2 = r2 [unfolded this]
  show ?case
  proof (cases "er_outcome res = Pass")
    case True
    show ?thesis
      by (simp add: retry_loop_passed [OF r1 True] retry_loop_passed [OF r2 True])
  next
    case False
    then have fail: "er_outcome res = Fail" by (rule exec_outcome_cases)
    show ?thesis
    proof (cases "counter + 1 \<le> max_retries c")
      case False
      then have gt: "max_retries c < counter + 1" by simp
      show ?thesis
        by (simp add: retry_loop_exhausted [OF r1 fail gt] retry_loop_exhausted [OF r2 fail gt])
    next
      case le: True
      obtain g w2 where g1: "repair c tid scr res w1 = (g, w2)"
        by (cases "repair c tid scr res w1")
      obtain g' w2' where g2: "repair c tid scr res w1' = (g', w2')"
        by (cases "repair c tid scr res w1'")
      have "g' = g" using rep [of tid scr res w1 w1'] g1 g2 by simp
      note g2 = g2 [unfolded this]
      show ?thesis
      proof (cases "generation_failed g")
        case True
        show ?thesis
          by (simp add: retry_loop_undiagnosed [OF r1 fail le g1 True]
              retry_loop_undiagnosed [OF r2 fail le g2 True])
      next
        case nf: False
        then obtain scr' where scr': "g = Some scr'"
          by (cases g) (simp_all add: generation_failed_def)
        have lt: "Suc (max_retries c) - (counter + 1) < Suc (max_retries c) - counter"
          using le by simp
        show ?thesis
          unfolding retry_loop_retried [OF r1 fail le g1 [unfolded scr'] nf [unfolded scr']]
            retry_loop_retried [OF r2 fail le g2 [unfolded scr'] nf [unfolded scr']]
          using lt by (rule less.hyps)
      qed
    qed
  qed
qed

lemma handle_db:
  "REPORT_DB (snd (handle_test_run sv f s)) = REPORT_DB s \<or>
   (\<exists>rep. REPORT_DB (snd (handle_test_run sv f s)) = (REPORT_DB s)(run_id rep \<mapsto> rep))"
proof -
  let ?p = "os_path_join UPLOADS_DIR (filename f)"
  obtain parsed w1 where p: "parse_test_file sv ?p (write_file sv ?p (file_bytes f) (world s))
      = (parsed, w1)"
    by (cases "parse_test_file sv ?p (write_file sv ?p (file_bytes f) (world s))")
  show ?thesis
  proof (cases parsed)
    case (Inl e)
    show ?thesis by (simp add: handle_parse_failed [OF p [unfolded Inl]])
  next
    case (Inr tcs)
    obtain rid w2 where u: "uuid4 sv w1 = (rid, w2)" by (cases "uuid4 sv w1")
    let ?s2 = "s\<lparr>world := w2, trace := trace s @ [EvWriteFile ?p, EvParse ?p, EvUuid]\<rparr>"
    obtain rep s3 where b: "run_batch sv rid tcs ?s2 = (rep, s3)"
      by (cases "run_batch sv rid tcs ?s2")
    have "run_id rep = rid" using run_batch_run_id [of sv rid tcs ?s2] b by simp
    moreover have "REPORT_DB s3 = REPORT_DB s"
      using run_batch_state [of sv rid tcs ?s2] run_cases_db [of sv 0 tcs "[]" ?s2] b by simp
    ultimately show ?thesis
      by (auto simp: handle_parsed [OF p [unfolded Inr] u b])
  qed
qed

lemma route_db:
  "REPORT_DB (snd (route sv rq s)) = REPORT_DB s \<or>
   (\<exists>rep. REPORT_DB (snd (route sv rq s)) = (REPORT_DB s)(run_id rep \<mapsto> rep))"
proof (cases rq)
  case GetRoot
  then show ?thesis by (simp add: read_root_def)
next
  case (PostRunTests f)
  then show ?thesis using handle_db [of sv f s] by simp
next
  case (GetReport rid)
  then show ?thesis by (simp add: view_report_def split: option.splits)
qed

lemma serve_keys:
  assumes "\<And>k r. REPORT_DB s k = Some r \<Longrightarrow> run_id r = k"
  shows "REPORT_DB (serve sv rqs s) k = Some r \<Longrightarrow> run_id r = k"
  using assms
proof (induction rqs arbitrary: s)
  case Nil
  then show ?case by simp
next
  case (Cons rq rqs)
  have "\<And>k r. REPORT_DB (snd (route sv rq s)) k = Some r \<Longrightarrow> run_id r = k"
    using route_db [of sv rq s] Cons.prems(2) by (auto split: if_splits)
  then show ?case using Cons.IH [of "snd (route sv rq s)"] Cons.prems(1) by simp
qed

section \<open>The claims\<close>

text \<open>
  Claim C1, as the code has it. The loop skips exactly the records whose identifier
  column is present and holds the empty text: the number of reports in the run report
  is the number of other records. A skipped record leaves the state and the reports
  built so far untouched and the loop goes on with the rest. A record with no
  identifier column is not skipped: line 58 names it \<open>TestCase_<position>\<close> and it is
  processed.
\<close>
theorem batch_skips_blank_identifiers:
  "length (test_cases (fst (run_batch sv rid tcs s))) =
     length (filter (\<lambda>tc. tc ID_KEY \<noteq> Some (PStr [])) tcs)
   \<and> (tc ID_KEY = Some (PStr []) \<longrightarrow>
        process_test_case sv i tc s' = (None, s') \<and>
        run_cases sv i (tc # rest) acc s' = run_cases sv (Suc i) rest acc s')
   \<and> (tc ID_KEY = None \<longrightarrow>
        case_id i tc = ''TestCase_'' @ str_nat (i + 1) \<and>
        fst (process_test_case sv i tc s') \<noteq> None)"
proof (intro conjI impI)
  show "length (test_cases (fst (run_batch sv rid tcs s))) =
     length (filter (\<lambda>tc. tc ID_KEY \<noteq> Some (PStr [])) tcs)"
    by (simp add: run_batch_test_cases run_cases_length)
next
  assume "tc ID_KEY = Some (PStr [])"
  then have "case_id i tc = []" by (simp add: case_id_empty)
  then show skip: "process_test_case sv i tc s' = (None, s')" by (rule process_skip)
  then show "run_cases sv i (tc # rest) acc s' = run_cases sv (Suc i) rest acc s'"
    by simp
next
  assume none: "tc ID_KEY = None"
  then show "case_id i tc = ''TestCase_'' @ str_nat (i + 1)"
    by (simp add: case_id_def)
  then have "case_id i tc \<noteq> []" by simp
  then show "fst (process_test_case sv i tc s') \<noteq> None"
    by (simp add: process_None_iff)
qed

text \<open>
  Claim C2. When the generator returns nothing, the empty text or a text containing the
  error marker for a record that is not skipped, the loop body appends the report with
  status \<open>Fail\<close>, 0 retries and a history of the single attempt whose \<open>error\<close> is what
  the generator returned. The only effects are the generator call and the pause: no
  call of the executor is logged, and the world is the one the generator left.
\<close>
theorem generation_failure_is_terminal:
  assumes "case_id i tc \<noteq> []"
    and "generate_initial_script sv tc (world s) = (g, w)"
    and "generation_failed g"
  shows "process_test_case sv i tc s =
           (Some \<lparr>test_case_id = case_id i tc, status = ''Fail'', retries = 0,
                  history = [\<lparr>attempt = 1,
                              script = ''Failed to generate script from Gemini.'',
                              outcome = ''Fail'', error = g\<rparr>]\<rparr>,
            s\<lparr>world := w, trace := trace s @ [EvGenerate tc, EvSleep 2]\<rparr>)
       \<and> filter is_execute (drop (length (trace s))
            (trace (snd (process_test_case sv i tc s)))) = []
       \<and> run_cases sv i (tc # rest) acc s =
           run_cases sv (Suc i) rest
             (acc @ [\<lparr>test_case_id = case_id i tc, status = ''Fail'', retries = 0,
                      history = [\<lparr>attempt = 1,
                                  script = ''Failed to generate script from Gemini.'',
                                  outcome = ''Fail'', error = g\<rparr>]\<rparr>])
             (s\<lparr>world := w, trace := trace s @ [EvGenerate tc, EvSleep 2]\<rparr>)"
  using process_failed [OF assms] by (simp add: failure_report_def)

lemma process_controller_report:
  assumes "fst (process_test_case (sv\<lparr>execute_test_case := retry_controller c\<rparr>) i tc s) = Some r"
  shows "history r \<noteq> [] \<and> (status r = ''Pass'' \<longleftrightarrow> outcome (last (history r)) = ''Pass'')
         \<and> 1 \<le> length (history r) \<and> length (history r) \<le> max_retries c + 1"
proof (rule process_cases [of i tc "sv\<lparr>execute_test_case := retry_controller c\<rparr>" s])
  assume "process_test_case (sv\<lparr>execute_test_case := retry_controller c\<rparr>) i tc s = (None, s)"
  then show ?thesis using assms by simp
next
  fix g w
  assume "process_test_case (sv\<lparr>execute_test_case := retry_controller c\<rparr>) i tc s =
           (Some (failure_report (case_id i tc) g),
            s\<lparr>world := w, trace := trace s @ [EvGenerate tc, EvSleep 2]\<rparr>)"
  then have "r = failure_report (case_id i tc) g" using assms by simp
  then show ?thesis by (simp add: failure_report_def)
next
  fix scr w r' w'
  assume e: "execute_test_case (sv\<lparr>execute_test_case := retry_controller c\<rparr>)
          (case_id i tc) scr RESULTS_DIR w = (r', w')"
    and p: "process_test_case (sv\<lparr>execute_test_case := retry_controller c\<rparr>) i tc s =
           (Some r',
            s\<lparr>world := w', trace := trace s @
               [EvGenerate tc, EvExecute (case_id i tc) scr RESULTS_DIR, EvSleep 2]\<rparr>)"
  have "r = r'" using assms p by simp
  then have r: "r = fst (retry_controller c (case_id i tc) scr RESULTS_DIR w)"
    using e by simp
  show ?thesis
    unfolding r
    using retry_controller_status [of c "case_id i tc" scr RESULTS_DIR w]
      retry_controller_length [of c "case_id i tc" scr RESULTS_DIR w]
    by simp
qed

text \<open>
  Claim C3, with the retry controller of the specification as the executor. Every report
  of the run has a non-empty history, and its status is \<open>Pass\<close> exactly when the
  outcome of its last attempt is \<open>Pass\<close>.
\<close>
theorem status_pass_iff_last_attempt_passes:
  "\<forall>r \<in> set (test_cases
       (fst (run_batch (sv\<lparr>execute_test_case := retry_controller c\<rparr>) rid tcs s))).
     history r \<noteq> [] \<and> (status r = ''Pass'' \<longleftrightarrow> outcome (last (history r)) = ''Pass'')"
  unfolding run_batch_test_cases
  by (rule run_cases_all) (simp_all add: process_controller_report)

text \<open>
  Claim C4, with the retry controller of the specification as the executor. Every report
  of the run has at least one attempt and at most max-retries plus one. When the
  generation of the initial script fails, the history has exactly one attempt, for any
  executor and so for any retry budget.
\<close>
theorem attempts_within_retry_budget:
  "(\<forall>r \<in> set (test_cases
       (fst (run_batch (sv\<lparr>execute_test_case := retry_controller c\<rparr>) rid tcs s))).
      1 \<le> length (history r) \<and> length (history r) \<le> max_retries c + 1)
   \<and> (case_id i tc \<noteq> [] \<and>
       generation_failed (fst (generate_initial_script sv' tc (world s'))) \<longrightarrow>
       (\<exists>r. fst (process_test_case sv' i tc s') = Some r \<and> length (history r) = 1))"
proof (intro conjI impI)
  show "\<forall>r \<in> set (test_cases
       (fst (run_batch (sv\<lparr>execute_test_case := retry_controller c\<rparr>) rid tcs s))).
      1 \<le> length (history r) \<and> length (history r) \<le> max_retries c + 1"
    unfolding run_batch_test_cases
  proof (rule run_cases_all)
    show "\<forall>r \<in> set []. 1 \<le> length (history r) \<and> length (history r) \<le> max_retries c + 1"
      by simp
  next
    fix j t u r
    assume "fst (process_test_case (sv\<lparr>execute_test_case := retry_controller c\<rparr>) j t u)
        = Some r"
    from process_controller_report [OF this]
    show "1 \<le> length (history r) \<and> length (history r) \<le> max_retries c + 1"
      by blast
  qed
next
  assume a: "case_id i tc \<noteq> [] \<and>
       generation_failed (fst (generate_initial_script sv' tc (world s')))"
  obtain g w where g: "generate_initial_script sv' tc (world s') = (g, w)"
    by (cases "generate_initial_script sv' tc (world s')")
  have "generation_failed g" using a g by simp
  from process_failed [OF conjunct1 [OF a] g this]
  show "\<exists>r. fst (process_test_case sv' i tc s') = Some r \<and> length (history r) = 1"
    by (simp add: failure_report_def)
qed

text \<open>
  Claim C5. When the executor labels its report with the identifier it was called with,
  the identifiers of the reports, in order, are the identifiers of the input records, in
  order, with the skipped (empty) ones removed.
\<close>
theorem reports_follow_input_order:
  assumes "\<forall>tid scr dir w. test_case_id (fst (execute_test_case sv tid scr dir w)) = tid"
  shows "map test_case_id (test_cases (fst (run_batch sv rid tcs s))) =
           filter (\<lambda>t. t \<noteq> []) (map (\<lambda>(i, tc). case_id i tc) (enumerate 0 tcs))"
  using run_cases_ids [of sv 0 tcs "[]" s] assms
  by (simp add: run_batch_test_cases)

text \<open>
  Claim C6. When the upload parses, the effects of the run end with the single write to
  the report store: no earlier effect of the run is a store write, the generator calls
  for all the records that are not skipped come before it, and the store afterwards is
  the store before with the one report added under its run identifier. The loop over
  the records, from any index, over any list of records and from any state, leaves the
  store as it found it.
\<close>
theorem store_written_once_after_batch:
  assumes "fst (parse_test_file sv (os_path_join UPLOADS_DIR (filename f))
             (write_file sv (os_path_join UPLOADS_DIR (filename f)) (file_bytes f) (world s)))
           = Inr tcs"
  shows "(\<exists>rid rep pre.
            trace (snd (handle_test_run sv f s)) = trace s @ pre @ [EvStore rid] \<and>
            (\<forall>e \<in> set pre. \<not> is_store e) \<and>
            length (filter is_generate pre) =
              length (filter (\<lambda>tc. tc ID_KEY \<noteq> Some (PStr [])) tcs) \<and>
            REPORT_DB (snd (handle_test_run sv f s)) = (REPORT_DB s)(rid \<mapsto> rep) \<and>
            fst (handle_test_run sv f s) = RedirectResponse (''/report/'' @ rid) 303)
       \<and> REPORT_DB (snd (run_cases sv i cs acc s0)) = REPORT_DB s0"
proof
  let ?p = "os_path_join UPLOADS_DIR (filename f)"
  obtain w1 where p: "parse_test_file sv ?p (write_file sv ?p (file_bytes f) (world s))
      = (Inr tcs, w1)"
    using assms by (cases "parse_test_file sv ?p (write_file sv ?p (file_bytes f) (world s))")
      simp
  obtain rid w2 where u: "uuid4 sv w1 = (rid, w2)" by (cases "uuid4 sv w1")
  let ?s2 = "s\<lparr>world := w2, trace := trace s @ [EvWriteFile ?p, EvParse ?p, EvUuid]\<rparr>"
  obtain rep s3 where b: "run_batch sv rid tcs ?s2 = (rep, s3)"
    by (cases "run_batch sv rid tcs ?s2")
  have s3: "s3 = snd (run_cases sv 0 tcs [] ?s2)"
    using run_batch_state [of sv rid tcs ?s2] b by simp
  obtain evs where evs: "trace s3 = trace ?s2 @ evs" "\<forall>e \<in> set evs. \<not> is_store e"
    "length (filter is_generate evs) =
       length (filter (\<lambda>tc. tc ID_KEY \<noteq> Some (PStr [])) tcs)"
    using run_cases_trace [of sv 0 tcs "[]" ?s2] unfolding s3 by blast
  have db: "REPORT_DB s3 = REPORT_DB s"
    unfolding s3 by (simp add: run_cases_db)
  let ?pre = "[EvWriteFile ?p, EvParse ?p, EvUuid] @ evs"
  have h: "handle_test_run sv f s =
           (RedirectResponse (''/report/'' @ rid) 303,
            s3\<lparr>REPORT_DB := (REPORT_DB s3)(rid \<mapsto> rep),
               trace := trace s3 @ [EvStore rid]\<rparr>)"
    by (rule handle_parsed [OF p u b])
  have "trace (snd (handle_test_run sv f s)) = trace s @ ?pre @ [EvStore rid]"
    by (simp add: h evs(1))
  moreover have "\<forall>e \<in> set ?pre. \<not> is_store e" using evs(2) by simp
  moreover have "length (filter is_generate ?pre) =
       length (filter (\<lambda>tc. tc ID_KEY \<noteq> Some (PStr [])) tcs)"
    using evs(3) by simp
  moreover have "REPORT_DB (snd (handle_test_run sv f s)) = (REPORT_DB s)(rid \<mapsto> rep)"
    by (simp add: h db)
  moreover have "fst (handle_test_run sv f s) = RedirectResponse (''/report/'' @ rid) 303"
    by (simp add: h)
  ultimately show "\<exists>rid rep pre.
            trace (snd (handle_test_run sv f s)) = trace s @ pre @ [EvStore rid] \<and>
            (\<forall>e \<in> set pre. \<not> is_store e) \<and>
            length (filter is_generate pre) =
              length (filter (\<lambda>tc. tc ID_KEY \<noteq> Some (PStr [])) tcs) \<and>
            REPORT_DB (snd (handle_test_run sv f s)) = (REPORT_DB s)(rid \<mapsto> rep) \<and>
            fst (handle_test_run sv f s) = RedirectResponse (''/report/'' @ rid) 303"
    by blast
next
  show "REPORT_DB (snd (run_cases sv i cs acc s0)) = REPORT_DB s0"
    by (rule run_cases_db)
qed

text \<open>
  Claim C7. Retrieval answers with the stored report when the store holds one under the
  run identifier, and with the "Report not found!" page when it holds none; the state,
  and so the store, is unchanged in both cases.
\<close>
theorem view_report_lookup:
  "(REPORT_DB s rid = Some r \<longrightarrow> view_report rid s = (ReportPage r, s)) \<and>
   (REPORT_DB s rid = None \<longrightarrow>
      view_report rid s = (IndexPage (Some ''Report not found!''), s))"
  by (simp add: view_report_def)

text \<open>
  Claim C8. When parsing the upload fails, the handler answers with the upload page
  carrying the parse error, the report store is unchanged, and the only effects are the
  saving of the upload and the parse attempt: no run identifier is drawn, no script is
  generated or executed, nothing is stored.
\<close>
theorem parse_failure_runs_nothing:
  assumes "fst (parse_test_file sv (os_path_join UPLOADS_DIR (filename f))
             (write_file sv (os_path_join UPLOADS_DIR (filename f)) (file_bytes f) (world s)))
           = Inl e"
  shows "fst (handle_test_run sv f s) = IndexPage (Some (''Failed to parse file: '' @ e))
       \<and> REPORT_DB (snd (handle_test_run sv f s)) = REPORT_DB s
       \<and> trace (snd (handle_test_run sv f s)) =
           trace s @ [EvWriteFile (os_path_join UPLOADS_DIR (filename f)),
                      EvParse (os_path_join UPLOADS_DIR (filename f))]"
proof -
  let ?p = "os_path_join UPLOADS_DIR (filename f)"
  obtain w1 where p: "parse_test_file sv ?p (write_file sv ?p (file_bytes f) (world s))
      = (Inl e, w1)"
    using assms by (cases "parse_test_file sv ?p (write_file sv ?p (file_bytes f) (world s))")
      simp
  show ?thesis by (simp add: handle_parse_failed [OF p])
qed

text \<open>
  Claim C9. When the answers of the generator and of the executor do not depend on the
  world they are called in, two runs of the batch logic over the same records give the
  same reports, whatever the two starting states and run identifiers; the same holds for
  one record at one position.
\<close>
theorem deterministic_collaborators_give_equal_reports:
  assumes "\<forall>tc w w'. fst (generate_initial_script sv tc w) = fst (generate_initial_script sv tc w')"
    and "\<forall>tid scr dir w w'.
        fst (execute_test_case sv tid scr dir w) = fst (execute_test_case sv tid scr dir w')"
  shows "test_cases (fst (run_batch sv rid tcs s)) = test_cases (fst (run_batch sv rid' tcs s'))
       \<and> fst (process_test_case sv i tc s) = fst (process_test_case sv i tc s')"
proof
  show "test_cases (fst (run_batch sv rid tcs s)) = test_cases (fst (run_batch sv rid' tcs s'))"
    unfolding run_batch_test_cases
    by (rule run_cases_det) (simp_all add: assms)
  show "fst (process_test_case sv i tc s) = fst (process_test_case sv i tc s')"
    by (rule process_det) (simp_all add: assms)
qed

text \<open>
  Claim C10. After any sequence of requests served from the initial state, a retrieval
  that answers with a report answers with the report stored under the requested
  identifier, and the \<open>run_id\<close> field of that report is the requested identifier.
\<close>
theorem stored_run_id_matches_key:
  assumes "fst (view_report k (serve sv rqs (initial_state w))) = ReportPage r"
  shows "REPORT_DB (serve sv rqs (initial_state w)) k = Some r \<and> run_id r = k"
proof -
  have st: "REPORT_DB (serve sv rqs (initial_state w)) k = Some r"
    using assms by (simp add: view_report_def split: option.splits)
  have "\<And>k r. REPORT_DB (initial_state w) k = Some r \<Longrightarrow> run_id r = k"
    by (simp add: initial_state_def)
  then have "run_id r = k" using st by (rule serve_keys)
  then show ?thesis using st by simp
qed

section \<open>Worked examples on the mock collaborators\<close>

lemmas mock_defs = mock_services_def mock_controller_def mock_cases_def tc_login_def
  tc_blank_def tc_unnamed_def tc_numbered_def cases_upload_def notes_upload_def ID_KEY_def

lemma mock_ids: "case_id 0 tc_login = ''TC_LOGIN''" "case_id 1 tc_blank = []"
  "case_id 2 tc_unnamed = ''TestCase_3''" "case_id 3 tc_numbered = ''7''"
  by (simp_all add: case_id_def mock_defs str_int_def digit_char_def)

lemma mock_keys: "tc_login ID_KEY = Some (PStr ''TC_LOGIN'')" "tc_blank ID_KEY = Some (PStr [])"
  "tc_unnamed ID_KEY = None" "tc_numbered ID_KEY = Some (PInt 7)"
  by (simp_all add: mock_defs)

theorem missing_identifier_counterexample:
  "length (test_cases (fst (run_batch (mock_services (mock_controller 1 ''good'')) ''r''
       [tc_unnamed] (initial_state 0))))
   \<noteq> length (filter has_identifier_spec [tc_unnamed])"
proof -
  have "length (test_cases (fst (run_batch (mock_services (mock_controller 1 ''good'')) ''r''
       [tc_unnamed] (initial_state 0)))) = 1"
    unfolding run_batch_test_cases run_cases_length by (simp add: mock_keys)
  moreover have "length (filter has_identifier_spec [tc_unnamed]) = 0"
    by (simp add: has_identifier_spec_def mock_keys)
  ultimately show ?thesis by simp
qed

theorem batch_skips_blank_identifiers_witness:
  "length (test_cases (fst (run_batch (mock_services (mock_controller 1 ''good'')) ''r''
       mock_cases (initial_state 0)))) = 3
   \<and> tc_blank ID_KEY = Some (PStr [])
   \<and> process_test_case (mock_services (mock_controller 1 ''good'')) 1 tc_blank
        (initial_state 0) = (None, initial_state 0)
   \<and> tc_unnamed ID_KEY = None
   \<and> case_id 2 tc_unnamed = ''TestCase_3''
   \<and> fst (process_test_case (mock_services (mock_controller 1 ''good'')) 2 tc_unnamed
        (initial_state 0)) \<noteq> None"
  using batch_skips_blank_identifiers
      [where sv = "mock_services (mock_controller 1 ''good'')" and rid = "''r''"
         and tcs = mock_cases and s = "initial_state 0" and tc = tc_blank and i = 1
         and s' = "initial_state 0" and rest = "[]" and acc = "[]"]
    batch_skips_blank_identifiers
      [where sv = "mock_services (mock_controller 1 ''good'')" and rid = "''r''"
         and tcs = mock_cases and s = "initial_state 0" and tc = tc_unnamed and i = 2
         and s' = "initial_state 0" and rest = "[]" and acc = "[]"]
  by (simp add: mock_keys mock_cases_def digit_char_def)

theorem generation_failure_is_terminal_witness:
  "case_id 3 tc_numbered \<noteq> []
   \<and> generation_failed (Some ''# Gemini API Error: quota exceeded'')
   \<and> process_test_case (mock_services (mock_controller 1 ''good'')) 3 tc_numbered
        (initial_state 0) =
       (Some \<lparr>test_case_id = ''7'', status = ''Fail'', retries = 0,
              history = [\<lparr>attempt = 1, script = ''Failed to generate script from Gemini.'',
                          outcome = ''Fail'',
                          error = Some ''# Gemini API Error: quota exceeded''\<rparr>]\<rparr>,
        \<lparr>world = 1, REPORT_DB = Map.empty, trace = [EvGenerate tc_numbered, EvSleep 2]\<rparr>)"
proof -
  have h1: "case_id 3 tc_numbered \<noteq> []" by (simp add: mock_ids)
  have h2: "generate_initial_script (mock_services (mock_controller 1 ''good'')) tc_numbered
      (world (initial_state (0::nat))) = (Some ''# Gemini API Error: quota exceeded'', 1)"
    by (simp add: mock_defs initial_state_def)
  have h3: "generation_failed (Some ''# Gemini API Error: quota exceeded'')"
    by (simp add: generation_failed_def ERROR_MARKER_def)
  show ?thesis
    using h1 h3 generation_failure_is_terminal [OF h1 h2 h3, of "[]" "[]"]
    by (simp add: mock_ids initial_state_def)
qed

lemma mock_executor:
  "sv = mock_services c \<Longrightarrow> sv\<lparr>execute_test_case := retry_controller c\<rparr> = sv"
  by (simp add: mock_services_def)

lemma scenario_A:
  "test_cases (fst (run_batch (mock_services (mock_controller 2 ''good'')) ''r'' mock_cases
      (initial_state 0))) =
   [\<lparr>test_case_id = ''TC_LOGIN'', status = ''Pass'', retries = 1,
      history = [\<lparr>attempt = 1, script = ''bad'', outcome = ''Fail'', error = Some ''boom''\<rparr>,
                 \<lparr>attempt = 2, script = ''good'', outcome = ''Pass'', error = Some []\<rparr>]\<rparr>,
    \<lparr>test_case_id = ''TestCase_3'', status = ''Pass'', retries = 0,
      history = [\<lparr>attempt = 1, script = ''good'', outcome = ''Pass'', error = Some []\<rparr>]\<rparr>,
    \<lparr>test_case_id = ''7'', status = ''Fail'', retries = 0,
      history = [\<lparr>attempt = 1, script = ''Failed to generate script from Gemini.'',
                  outcome = ''Fail'',
                  error = Some ''# Gemini API Error: quota exceeded''\<rparr>]\<rparr>]"
  by code_simp


lemma scenario_B:
  "test_cases (fst (run_batch (mock_services (mock_controller 1 ''bad'')) ''r'' mock_cases
      (initial_state 0))) =
   [\<lparr>test_case_id = ''TC_LOGIN'', status = ''Fail'', retries = 1,
      history = [\<lparr>attempt = 1, script = ''bad'', outcome = ''Fail'', error = Some ''boom''\<rparr>,
                 \<lparr>attempt = 2, script = ''bad'', outcome = ''Fail'', error = Some ''boom''\<rparr>]\<rparr>,
    \<lparr>test_case_id = ''TestCase_3'', status = ''Pass'', retries = 0,
      history = [\<lparr>attempt = 1, script = ''good'', outcome = ''Pass'', error = Some []\<rparr>]\<rparr>,
    \<lparr>test_case_id = ''7'', status = ''Fail'', retries = 0,
      history = [\<lparr>attempt = 1, script = ''Failed to generate script from Gemini.'',
                  outcome = ''Fail'',
                  error = Some ''# Gemini API Error: quota exceeded''\<rparr>]\<rparr>]"
  by code_simp

theorem status_pass_iff_last_attempt_passes_witness:
  "map status (test_cases (fst (run_batch (mock_services (mock_controller 2 ''good'')) ''r''
       mock_cases (initial_state 0)))) = [''Pass'', ''Pass'', ''Fail'']
   \<and> history (test_cases (fst (run_batch (mock_services (mock_controller 2 ''good'')) ''r''
       mock_cases (initial_state 0))) ! 0) \<noteq> []
   \<and> (status (test_cases (fst (run_batch (mock_services (mock_controller 2 ''good'')) ''r''
       mock_cases (initial_state 0))) ! 0) = ''Pass'') =
     (outcome (last (history (test_cases (fst (run_batch
       (mock_services (mock_controller 2 ''good'')) ''r''
       mock_cases (initial_state 0))) ! 0))) = ''Pass'')
   \<and> history (test_cases (fst (run_batch (mock_services (mock_controller 2 ''good'')) ''r''
       mock_cases (initial_state 0))) ! 2) \<noteq> []
   \<and> (status (test_cases (fst (run_batch (mock_services (mock_controller 2 ''good'')) ''r''
       mock_cases (initial_state 0))) ! 2) = ''Pass'') =
     (outcome (last (history (test_cases (fst (run_batch
       (mock_services (mock_controller 2 ''good'')) ''r''
       mock_cases (initial_state 0))) ! 2))) = ''Pass'')"
proof -
  let ?rs = "test_cases (fst (run_batch (mock_services (mock_controller 2 ''good'')) ''r''
       mock_cases (initial_state 0)))"
  have len: "length ?rs = 3" unfolding scenario_A by simp
  have m0: "?rs ! 0 \<in> set ?rs" and m2: "?rs ! 2 \<in> set ?rs"
    by (rule nth_mem, use len in simp)+
  have st: "map status ?rs = [''Pass'', ''Pass'', ''Fail'']"
    unfolding scenario_A by simp
  note t = status_pass_iff_last_attempt_passes
      [where sv = "mock_services (mock_controller 2 ''good'')"
         and c = "mock_controller 2 ''good''" and rid = "''r''"
         and tcs = mock_cases and s = "initial_state 0",
        unfolded mock_executor [OF refl]]
  show ?thesis
    using st bspec [OF t m0] bspec [OF t m2] by blast
qed

theorem attempts_within_retry_budget_witness:
  "map (\<lambda>r. length (history r))
     (test_cases (fst (run_batch (mock_services (mock_controller 1 ''bad'')) ''r''
       mock_cases (initial_state 0)))) = [2, 1, 1]
   \<and> max_retries (mock_controller 1 ''bad'') = 1
   \<and> 1 \<le> length (history (test_cases (fst (run_batch
        (mock_services (mock_controller 1 ''bad'')) ''r'' mock_cases (initial_state 0))) ! 0))
   \<and> length (history (test_cases (fst (run_batch
        (mock_services (mock_controller 1 ''bad'')) ''r'' mock_cases (initial_state 0))) ! 0))
       \<le> max_retries (mock_controller 1 ''bad'') + 1
   \<and> case_id 3 tc_numbered \<noteq> []
   \<and> generation_failed (fst (generate_initial_script (mock_services (mock_controller 1 ''bad''))
         tc_numbered (world (initial_state 0))))
   \<and> (\<exists>r. fst (process_test_case (mock_services (mock_controller 1 ''bad'')) 3 tc_numbered
              (initial_state 0)) = Some r \<and> length (history r) = 1)"
proof -
  let ?rs = "test_cases (fst (run_batch (mock_services (mock_controller 1 ''bad'')) ''r''
       mock_cases (initial_state 0)))"
  have h1: "case_id 3 tc_numbered \<noteq> []" by (simp add: mock_ids)
  have h2: "generation_failed (fst (generate_initial_script
      (mock_services (mock_controller 1 ''bad'')) tc_numbered (world (initial_state 0))))"
    by (simp add: mock_defs generation_failed_def ERROR_MARKER_def)
  have h3: "max_retries (mock_controller 1 ''bad'') = 1" by (simp add: mock_controller_def)
  have h4: "map (\<lambda>r. length (history r)) ?rs = [2, 1, 1]"
    unfolding scenario_B by simp
  have len: "length ?rs = 3" unfolding scenario_B by simp
  have m0: "?rs ! 0 \<in> set ?rs" by (rule nth_mem) (use len in simp)
  note t = attempts_within_retry_budget
      [where sv = "mock_services (mock_controller 1 ''bad'')"
         and c = "mock_controller 1 ''bad''" and rid = "''r''"
         and tcs = mock_cases and s = "initial_state 0" and i = 3 and tc = tc_numbered
         and sv' = "mock_services (mock_controller 1 ''bad'')" and s' = "initial_state 0",
        unfolded mock_executor [OF refl]]
  show ?thesis
    using bspec [OF conjunct1 [OF t] m0] conjunct2 [OF t] h1 h2 h3 h4 by blast
qed

theorem reports_follow_input_order_witness:
  "(\<forall>tid scr dir w. test_case_id (fst (execute_test_case
        (mock_services (mock_controller 2 ''good'')) tid scr dir w)) = tid)
   \<and> map test_case_id (test_cases (fst (run_batch (mock_services (mock_controller 2 ''good''))
        ''r'' mock_cases (initial_state 0)))) = [''TC_LOGIN'', ''TestCase_3'', ''7'']"
proof -
  have h: "\<forall>tid scr dir w. test_case_id (fst (execute_test_case
        (mock_services (mock_controller 2 ''good'')) tid scr dir w)) = tid"
    by (simp add: mock_services_def retry_controller_id)
  have e: "enumerate 0 mock_cases = [(0, tc_login), (1, tc_blank), (2, tc_unnamed), (3, tc_numbered)]"
    by (simp add: mock_cases_def)
  show ?thesis
    using h reports_follow_input_order [OF h, of "''r''" mock_cases "initial_state 0"]
    by (simp add: e mock_ids mock_ids [unfolded One_nat_def])
qed

lemma cases_upload_parses:
  "fst (parse_test_file (mock_services c) (os_path_join UPLOADS_DIR (filename cases_upload))
     (write_file (mock_services c) (os_path_join UPLOADS_DIR (filename cases_upload))
        (file_bytes cases_upload) (world (initial_state 0)))) = Inr mock_cases"
  by (simp add: mock_services_def cases_upload_def os_path_join_def UPLOADS_DIR_def)

lemma notes_upload_fails:
  "fst (parse_test_file (mock_services c) (os_path_join UPLOADS_DIR (filename notes_upload))
     (write_file (mock_services c) (os_path_join UPLOADS_DIR (filename notes_upload))
        (file_bytes notes_upload) (world (initial_state 0)))) = Inl ''unsupported file''"
  by (simp add: mock_services_def notes_upload_def os_path_join_def UPLOADS_DIR_def)

theorem store_written_once_after_batch_witness:
  "fst (parse_test_file (mock_services (mock_controller 1 ''bad''))
       (os_path_join UPLOADS_DIR (filename cases_upload))
       (write_file (mock_services (mock_controller 1 ''bad''))
          (os_path_join UPLOADS_DIR (filename cases_upload))
          (file_bytes cases_upload) (world (initial_state 0)))) = Inr mock_cases
   \<and> (\<exists>rid rep pre.
        trace (snd (handle_test_run (mock_services (mock_controller 1 ''bad'')) cases_upload
                 (initial_state 0))) = trace (initial_state (0::nat)) @ pre @ [EvStore rid] \<and>
        (\<forall>e \<in> set pre. \<not> is_store e) \<and>
        length (filter is_generate pre) = 3 \<and>
        REPORT_DB (snd (handle_test_run (mock_services (mock_controller 1 ''bad''))
                 cases_upload (initial_state 0))) = (REPORT_DB (initial_state (0::nat)))(rid \<mapsto> rep) \<and>
        fst (handle_test_run (mock_services (mock_controller 1 ''bad'')) cases_upload
                 (initial_state 0)) = RedirectResponse (''/report/'' @ rid) 303)
   \<and> REPORT_DB (snd (run_cases (mock_services (mock_controller 1 ''bad'')) 0 mock_cases []
         (initial_state 0))) = REPORT_DB (initial_state (0::nat))"
proof -
  have n: "length (filter (\<lambda>tc. tc ID_KEY \<noteq> Some (PStr [])) mock_cases) = 3"
    by (simp add: mock_cases_def mock_keys)
  note p = cases_upload_parses [of "mock_controller 1 ''bad''"]
  note t = store_written_once_after_batch
      [OF p, where i = 0 and cs = mock_cases and acc = "[]" and ?s0.0 = "initial_state 0",
        unfolded n]
  show ?thesis by (intro conjI p conjunct1 [OF t] conjunct2 [OF t])
qed

theorem view_report_lookup_witness:
  "REPORT_DB \<lparr>world = (0::nat), REPORT_DB = [''run-2'' \<mapsto> \<lparr>run_id = ''run-2'', test_cases = []\<rparr>],
      trace = []\<rparr> ''run-2'' = Some \<lparr>run_id = ''run-2'', test_cases = []\<rparr>
   \<and> view_report ''run-2''
        \<lparr>world = (0::nat), REPORT_DB = [''run-2'' \<mapsto> \<lparr>run_id = ''run-2'', test_cases = []\<rparr>],
          trace = []\<rparr> =
       (ReportPage \<lparr>run_id = ''run-2'', test_cases = []\<rparr>,
        \<lparr>world = 0, REPORT_DB = [''run-2'' \<mapsto> \<lparr>run_id = ''run-2'', test_cases = []\<rparr>],
          trace = []\<rparr>)
   \<and> REPORT_DB \<lparr>world = (0::nat), REPORT_DB = [''run-2'' \<mapsto> \<lparr>run_id = ''run-2'', test_cases = []\<rparr>],
      trace = []\<rparr> ''run-9'' = None
   \<and> view_report ''run-9''
        \<lparr>world = (0::nat), REPORT_DB = [''run-2'' \<mapsto> \<lparr>run_id = ''run-2'', test_cases = []\<rparr>],
          trace = []\<rparr> =
       (IndexPage (Some ''Report not found!''),
        \<lparr>world = 0, REPORT_DB = [''run-2'' \<mapsto> \<lparr>run_id = ''run-2'', test_cases = []\<rparr>],
          trace = []\<rparr>)"
  using view_report_lookup
      [of "\<lparr>world = (0::nat), REPORT_DB = [''run-2'' \<mapsto> \<lparr>run_id = ''run-2'', test_cases = []\<rparr>],
            trace = []\<rparr>" "''run-2''" "\<lparr>run_id = ''run-2'', test_cases = []\<rparr>"]
    view_report_lookup
      [of "\<lparr>world = (0::nat), REPORT_DB = [''run-2'' \<mapsto> \<lparr>run_id = ''run-2'', test_cases = []\<rparr>],
            trace = []\<rparr>" "''run-9''" "\<lparr>run_id = ''run-2'', test_cases = []\<rparr>"]
  by simp

theorem parse_failure_runs_nothing_witness:
  "fst (parse_test_file (mock_services (mock_controller 1 ''bad''))
       (os_path_join UPLOADS_DIR (filename notes_upload))
       (write_file (mock_services (mock_controller 1 ''bad''))
          (os_path_join UPLOADS_DIR (filename notes_upload))
          (file_bytes notes_upload) (world (initial_state 0)))) = Inl ''unsupported file''
   \<and> fst (handle_test_run (mock_services (mock_controller 1 ''bad'')) notes_upload
        (initial_state 0)) = IndexPage (Some ''Failed to parse file: unsupported file'')
   \<and> REPORT_DB (snd (handle_test_run (mock_services (mock_controller 1 ''bad''))
        notes_upload (initial_state 0))) = Map.empty
   \<and> trace (snd (handle_test_run (mock_services (mock_controller 1 ''bad'')) notes_upload
        (initial_state 0))) = [EvWriteFile ''uploads/notes.txt'', EvParse ''uploads/notes.txt'']"
  using notes_upload_fails [of "mock_controller 1 ''bad''"]
    parse_failure_runs_nothing [OF notes_upload_fails [of "mock_controller 1 ''bad''"]]
  by (simp add: initial_state_def notes_upload_def os_path_join_def UPLOADS_DIR_def)

lemma mock_generator_det:
  "fst (generate_initial_script (mock_services c) tc w) =
   fst (generate_initial_script (mock_services c) tc w')"
  by (simp add: mock_services_def)

lemma mock_executor_det:
  "fst (execute_test_case (mock_services (mock_controller n fix)) tid scr dir w) =
   fst (execute_test_case (mock_services (mock_controller n fix)) tid scr dir w')"
  unfolding mock_services_def retry_controller_def
  by (simp, rule retry_loop_det) (simp_all add: mock_controller_def)

theorem deterministic_collaborators_give_equal_reports_witness:
  "(\<forall>tc w w'. fst (generate_initial_script (mock_services (mock_controller 2 ''good'')) tc w) =
               fst (generate_initial_script (mock_services (mock_controller 2 ''good'')) tc w'))
   \<and> (\<forall>tid scr dir w w'.
        fst (execute_test_case (mock_services (mock_controller 2 ''good'')) tid scr dir w) =
        fst (execute_test_case (mock_services (mock_controller 2 ''good'')) tid scr dir w'))
   \<and> test_cases (fst (run_batch (mock_services (mock_controller 2 ''good'')) ''r'' mock_cases
        (initial_state 0))) =
     test_cases (fst (run_batch (mock_services (mock_controller 2 ''good'')) ''q'' mock_cases
        (initial_state 41)))
   \<and> fst (process_test_case (mock_services (mock_controller 2 ''good'')) 0 tc_login
        (initial_state 0)) =
     fst (process_test_case (mock_services (mock_controller 2 ''good'')) 0 tc_login
        (initial_state 41))"
proof -
  have g: "\<forall>tc w w'. fst (generate_initial_script (mock_services (mock_controller 2 ''good'')) tc w) =
               fst (generate_initial_script (mock_services (mock_controller 2 ''good'')) tc w')"
    using mock_generator_det by blast
  have e: "\<forall>tid scr dir w w'.
        fst (execute_test_case (mock_services (mock_controller 2 ''good'')) tid scr dir w) =
        fst (execute_test_case (mock_services (mock_controller 2 ''good'')) tid scr dir w')"
    using mock_executor_det by blast
  show ?thesis
    using g e deterministic_collaborators_give_equal_reports [OF g e, of "''r''" mock_cases
        "initial_state 0" "''q''" "initial_state 41" 0 tc_login]
    by blast
qed

lemma served_report:
  "fst (view_report ''run-2''
     (serve (mock_services (mock_controller 1 ''bad'')) [PostRunTests cases_upload, GetRoot]
        (initial_state 0))) =
   ReportPage \<lparr>run_id = ''run-2'', test_cases =
     [\<lparr>test_case_id = ''TC_LOGIN'', status = ''Fail'', retries = 1,
        history = [\<lparr>attempt = 1, script = ''bad'', outcome = ''Fail'', error = Some ''boom''\<rparr>,
                   \<lparr>attempt = 2, script = ''bad'', outcome = ''Fail'', error = Some ''boom''\<rparr>]\<rparr>,
      \<lparr>test_case_id = ''TestCase_3'', status = ''Pass'', retries = 0,
        history = [\<lparr>attempt = 1, script = ''good'', outcome = ''Pass'', error = Some []\<rparr>]\<rparr>,
      \<lparr>test_case_id = ''7'', status = ''Fail'', retries = 0,
        history = [\<lparr>attempt = 1, script = ''Failed to generate script from Gemini.'',
                    outcome = ''Fail'',
                    error = Some ''# Gemini API Error: quota exceeded''\<rparr>]\<rparr>]\<rparr>"
  by code_simp

theorem stored_run_id_matches_key_witness:
  "fst (view_report ''run-2''
     (serve (mock_services (mock_controller 1 ''bad'')) [PostRunTests cases_upload, GetRoot]
        (initial_state 0))) =
   ReportPage \<lparr>run_id = ''run-2'', test_cases =
     [\<lparr>test_case_id = ''TC_LOGIN'', status = ''Fail'', retries = 1,
        history = [\<lparr>attempt = 1, script = ''bad'', outcome = ''Fail'', error = Some ''boom''\<rparr>,
                   \<lparr>attempt = 2, script = ''bad'', outcome = ''Fail'', error = Some ''boom''\<rparr>]\<rparr>,
      \<lparr>test_case_id = ''TestCase_3'', status = ''Pass'', retries = 0,
        history = [\<lparr>attempt = 1, script = ''good'', outcome = ''Pass'', error = Some []\<rparr>]\<rparr>,
      \<lparr>test_case_id = ''7'', status = ''Fail'', retries = 0,
        history = [\<lparr>attempt = 1, script = ''Failed to generate script from Gemini.'',
                    outcome = ''Fail'',
                    error = Some ''# Gemini API Error: quota exceeded''\<rparr>]\<rparr>]\<rparr>
   \<and> REPORT_DB (serve (mock_services (mock_controller 1 ''bad''))
        [PostRunTests cases_upload, GetRoot] (initial_state 0)) ''run-2'' \<noteq> None
   \<and> run_id (the (REPORT_DB (serve (mock_services (mock_controller 1 ''bad''))
        [PostRunTests cases_upload, GetRoot] (initial_state 0)) ''run-2'')) = ''run-2''"
  using served_report stored_run_id_matches_key [OF served_report]
  by simp

end
